theory Spec2Isabelle
  imports Complex_Main
begin

section \<open>Relevance vector regression (rvm.py): the embedding\<close>

text \<open>
  The module holds two classes, \<^verbatim>\<open>BaseRVM\<close> (constructor, \<^verbatim>\<open>_prune\<close>, \<^verbatim>\<open>fit\<close>) and
  \<^verbatim>\<open>RVR\<close> (\<^verbatim>\<open>_posterior\<close>, \<^verbatim>\<open>predict\<close>). An estimator object is a record; a method
  takes the object and returns the updated object, or the exception it raises.

  Numbers. NumPy computes in IEEE double precision. The embedding keeps the special
  values of that arithmetic (both infinities and not-a-number) and computes exactly on
  finite values: rounding, overflow and the sign of zero are outside the model. Every
  division of the source that can meet a zero divisor divides by a square or by a sum
  of squares, so the zero divisor is the positive zero.
\<close>

subsection \<open>Floating-point values and exceptions\<close>

datatype npfloat = Fin real | PInf | NInf | NaN

datatype error =
    ValueError          \<comment> \<open>shape mismatch, bad input, \<^verbatim>\<open>amax\<close> of an empty array\<close>
  | IndexError          \<comment> \<open>index out of range, boolean index of the wrong length\<close>
  | LinAlgError         \<comment> \<open>\<^verbatim>\<open>numpy.linalg.inv\<close> on a singular matrix\<close>
  | AttributeError      \<comment> \<open>an attribute read before any assignment to it\<close>
  | ZeroDivisionError   \<comment> \<open>Python's own \<^verbatim>\<open>%\<close> or \<^verbatim>\<open>/\<close> by zero\<close>
  | NonFinite           \<comment> \<open>linear algebra on an array holding inf or nan: not modelled, the run is cut\<close>
  | UnfittedModelError  \<comment> \<open>named in the interface description; no statement of the module raises it\<close>

definition bindE :: "error + 'a \<Rightarrow> ('a \<Rightarrow> error + 'b) \<Rightarrow> error + 'b" where
  "bindE r f = (case r of Inl e \<Rightarrow> Inl e | Inr v \<Rightarrow> f v)"

text \<open>\<^verbatim>\<open>a / b\<close> on finite operands, the divisor's zero being positive.\<close>

definition fdiv :: "real \<Rightarrow> real \<Rightarrow> npfloat" where
  "fdiv a b =
     (if b \<noteq> 0 then Fin (a / b)
      else if 0 < a then PInf
      else if a < 0 then NInf
      else NaN)"

fun fsub :: "npfloat \<Rightarrow> npfloat \<Rightarrow> npfloat" where
  "fsub (Fin a) (Fin b) = Fin (a - b)"
| "fsub NaN _ = NaN"
| "fsub _ NaN = NaN"
| "fsub PInf PInf = NaN"
| "fsub NInf NInf = NaN"
| "fsub PInf _ = PInf"
| "fsub NInf _ = NInf"
| "fsub (Fin a) PInf = NInf"
| "fsub (Fin a) NInf = PInf"

fun fadd :: "npfloat \<Rightarrow> npfloat \<Rightarrow> npfloat" where
  "fadd (Fin a) (Fin b) = Fin (a + b)"
| "fadd NaN _ = NaN"
| "fadd _ NaN = NaN"
| "fadd PInf NInf = NaN"
| "fadd NInf PInf = NaN"
| "fadd PInf _ = PInf"
| "fadd NInf _ = NInf"
| "fadd (Fin a) PInf = PInf"
| "fadd (Fin a) NInf = NInf"

fun fabs :: "npfloat \<Rightarrow> npfloat" where
  "fabs (Fin a) = Fin \<bar>a\<bar>"
| "fabs PInf = PInf"
| "fabs NInf = PInf"
| "fabs NaN = NaN"

text \<open>\<^verbatim>\<open>a < b\<close>: false as soon as one side is nan.\<close>

fun fless :: "npfloat \<Rightarrow> npfloat \<Rightarrow> bool" where
  "fless (Fin a) (Fin b) = (a < b)"
| "fless NaN _ = False"
| "fless _ NaN = False"
| "fless _ NInf = False"
| "fless PInf _ = False"
| "fless NInf _ = True"
| "fless (Fin a) PInf = True"

text \<open>The maximum of two values as \<^verbatim>\<open>numpy.amax\<close> takes it: nan wins.\<close>

fun fmax :: "npfloat \<Rightarrow> npfloat \<Rightarrow> npfloat" where
  "fmax NaN _ = NaN"
| "fmax _ NaN = NaN"
| "fmax a b = (if fless a b then b else a)"

definition amax :: "npfloat list \<Rightarrow> error + npfloat" where
  "amax xs = (case xs of [] \<Rightarrow> Inl ValueError | x # r \<Rightarrow> Inr (foldl fmax x r))"

fun the_fin :: "npfloat \<Rightarrow> real option" where
  "the_fin (Fin a) = Some a"
| "the_fin _ = None"

text \<open>The finite entries of an array, when all of them are finite.\<close>

definition all_fin :: "npfloat list \<Rightarrow> real list option" where
  "all_fin xs = (if \<forall>x \<in> set xs. the_fin x \<noteq> None then Some (map (\<lambda>x. the (the_fin x)) xs) else None)"

subsection \<open>Arrays\<close>

type_synonym vec = "real list"
type_synonym mat = "real list list"   \<comment> \<open>the rows of a two-dimensional array\<close>

definition ncols :: "mat \<Rightarrow> nat" where
  "ncols M = (case M of [] \<Rightarrow> 0 | r # _ \<Rightarrow> length r)"

definition col :: "mat \<Rightarrow> nat \<Rightarrow> vec" where
  "col M j = map (\<lambda>r. r ! j) M"

text \<open>\<^verbatim>\<open>M.T\<close>\<close>

definition T_m :: "mat \<Rightarrow> mat" where
  "T_m M = map (col M) [0..<ncols M]"

definition dotv :: "vec \<Rightarrow> vec \<Rightarrow> real" where
  "dotv x y = (\<Sum>i<length x. x ! i * y ! i)"

text \<open>\<^verbatim>\<open>np.dot\<close> of a matrix with a vector, and of two matrices.\<close>

definition dot_mv :: "mat \<Rightarrow> vec \<Rightarrow> vec" where
  "dot_mv M x = map (\<lambda>r. dotv r x) M"

definition dot_mm :: "mat \<Rightarrow> mat \<Rightarrow> mat" where
  "dot_mm A B = map (\<lambda>r. map (\<lambda>j. dotv r (col B j)) [0..<ncols B]) A"

text \<open>\<^verbatim>\<open>np.diag\<close> of a vector (the diagonal matrix) and of a matrix (its diagonal).\<close>

definition diag_m :: "vec \<Rightarrow> mat" where
  "diag_m v = map (\<lambda>i. map (\<lambda>j. if i = j then v ! i else 0) [0..<length v]) [0..<length v]"

definition diagonal :: "mat \<Rightarrow> vec" where
  "diagonal S = map (\<lambda>i. S ! i ! i) [0..<length S]"

definition madd :: "mat \<Rightarrow> mat \<Rightarrow> mat" where
  "madd A B = map2 (map2 (+)) A B"

definition smul :: "real \<Rightarrow> mat \<Rightarrow> mat" where
  "smul c A = map (map ((*) c)) A"

text \<open>
  \<^verbatim>\<open>a[keep]\<close> with a boolean array \<^verbatim>\<open>keep\<close>: the entries at the true positions, in
  order. NumPy (from 1.13 on) raises IndexError when the two lengths differ.
\<close>

definition compress :: "bool list \<Rightarrow> 'a list \<Rightarrow> 'a list" where
  "compress keep xs = map snd (filter fst (zip keep xs))"

definition bool_index :: "'a list \<Rightarrow> bool list \<Rightarrow> error + 'a list" where
  "bool_index xs keep = (if length keep = length xs then Inr (compress keep xs) else Inl IndexError)"

subsection \<open>\<^verbatim>\<open>numpy.linalg.inv\<close>\<close>

text \<open>
  The library routine returns the inverse of a square matrix and raises LinAlgError on
  a singular one. In exact arithmetic the inverse does not depend on how it is
  computed; here it is computed by elimination on the first column with a row
  exchange, and recursion on the Schur complement. A matrix is a function of its two
  indices inside this computation.
\<close>

definition sw :: "nat \<Rightarrow> nat \<Rightarrow> nat" where
  "sw p i = (if i = 0 then p else if i = p then 0 else i)"

fun inv_fun :: "nat \<Rightarrow> (nat \<Rightarrow> nat \<Rightarrow> real) \<Rightarrow> (nat \<Rightarrow> nat \<Rightarrow> real) option" where
  "inv_fun 0 A = Some (\<lambda>i j. 0)"
| "inv_fun (Suc n) A =
     (case find (\<lambda>p. A p 0 \<noteq> 0) [0..<Suc n] of
        None \<Rightarrow> None
      | Some p \<Rightarrow>
         (let B = (\<lambda>i j. A (sw p i) j);
              a = B 0 0;
              S = (\<lambda>i j. B (Suc i) (Suc j) - B (Suc i) 0 * B 0 (Suc j) / a)
          in case inv_fun n S of
               None \<Rightarrow> None
             | Some T \<Rightarrow>
                (let u = (\<lambda>j. \<Sum>l<n. B 0 (Suc l) * T l j);
                     v = (\<lambda>i. \<Sum>l<n. T i l * B (Suc l) 0);
                     w = (\<Sum>l<n. u l * B (Suc l) 0);
                     W = (\<lambda>i j. case i of
                            0 \<Rightarrow> (case j of 0 \<Rightarrow> 1 / a + w / (a * a) | Suc j' \<Rightarrow> - u j' / a)
                          | Suc i' \<Rightarrow> (case j of 0 \<Rightarrow> - v i' / a | Suc j' \<Rightarrow> T i' j'))
                 in Some (\<lambda>i j. W i (sw p j)))))"

definition mat_of :: "nat \<Rightarrow> (nat \<Rightarrow> nat \<Rightarrow> real) \<Rightarrow> mat" where
  "mat_of k f = map (\<lambda>i. map (\<lambda>j. f i j) [0..<k]) [0..<k]"

definition linalg_inv :: "mat \<Rightarrow> error + mat" where
  "linalg_inv A =
     (if \<exists>r \<in> set A. length r \<noteq> length A then Inl LinAlgError
      else case inv_fun (length A) (\<lambda>i j. A ! i ! j) of
             None \<Rightarrow> Inl LinAlgError
           | Some W \<Rightarrow> Inr (mat_of (length A) W))"




subsection \<open>The estimator object\<close>

text \<open>
  The attributes \<^verbatim>\<open>fit\<close> assigns. The source's names end in an underscore where these
  end in \<open>_a\<close>: \<^verbatim>\<open>alpha_\<close>, \<^verbatim>\<open>beta_\<close>, \<^verbatim>\<open>m_\<close>, \<^verbatim>\<open>sigma_\<close>, \<^verbatim>\<open>relevance_\<close>; \<open>y_a\<close> is
  \<^verbatim>\<open>self.y\<close>. \<^verbatim>\<open>gamma\<close> and \<^verbatim>\<open>sigma_\<close> are first assigned inside the loop, so they can be
  absent. \<open>beta_np\<close> records whether \<^verbatim>\<open>beta_\<close> is a NumPy scalar (assigned at line 155)
  or still the Python float copied from the constructor argument (line 142): the two
  differ in \<^verbatim>\<open>1/beta_\<close> at zero. \<open>bias\<close> is \<open>None\<close> for Python's \<^verbatim>\<open>None\<close>.
\<close>

record attrs =
  phi :: mat
  labels :: "string list"
  relevance_a :: mat
  y_a :: vec
  alpha_a :: "npfloat list"
  beta_a :: npfloat
  beta_np :: bool
  m_a :: vec
  alpha_old :: "npfloat list"
  gamma :: "vec option"
  sigma_a :: "mat option"
  bias :: "real option"

text \<open>
  The object: the nine constructor arguments (lines 59 to 67), and the attributes of
  \<^verbatim>\<open>fit\<close>, absent on a fresh object.
\<close>

record rvm =
  n_iter :: int
  tol :: npfloat
  alpha :: npfloat
  threshold_alpha :: npfloat
  beta :: npfloat
  beta_fixed :: bool
  bias_used :: bool
  verbose :: bool
  verb_freq :: int
  fitted :: "attrs option"

definition init :: "int \<Rightarrow> npfloat \<Rightarrow> npfloat \<Rightarrow> npfloat \<Rightarrow> npfloat \<Rightarrow> bool \<Rightarrow> bool \<Rightarrow> bool \<Rightarrow> int \<Rightarrow> rvm" where
  "init n t a th b bf bu v vf =
     \<lparr>n_iter = n, tol = t, alpha = a, threshold_alpha = th, beta = b, beta_fixed = bf,
      bias_used = bu, verbose = v, verb_freq = vf, fitted = None\<rparr>"

subsection \<open>\<^verbatim>\<open>RVR._posterior\<close> (lines 192 to 196)\<close>

definition posterior :: "rvm \<Rightarrow> error + rvm" where
  "posterior s =
     (case fitted s of
        None \<Rightarrow> Inl AttributeError
      | Some a \<Rightarrow>
         (case (all_fin (alpha_a a), the_fin (beta_a a)) of
            (Some al, Some b) \<Rightarrow>
              if length al \<noteq> ncols (phi a) \<or> length (y_a a) \<noteq> length (phi a) then Inl ValueError
              else
                (let i_s = madd (diag_m al) (smul b (dot_mm (T_m (phi a)) (phi a)))
                 in bindE (linalg_inv i_s) (\<lambda>sg.
                      Inr (s\<lparr>fitted := Some (a\<lparr>sigma_a := Some sg,
                             m_a := map ((*) b) (dot_mv sg (dot_mv (T_m (phi a)) (y_a a)))\<rparr>)\<rparr>)))
          | _ \<Rightarrow> Inl NonFinite))"

subsection \<open>\<^verbatim>\<open>BaseRVM._prune\<close> (lines 89 to 115)\<close>

text \<open>Lines 95 to 101: the mask, and the forced retention when it is all false.\<close>

definition keep_mask :: "rvm \<Rightarrow> attrs \<Rightarrow> bool list" where
  "keep_mask s a =
     (let keep_alpha = map (\<lambda>x. fless x (threshold_alpha s)) (alpha_a a)
      in if \<not> list_ex id keep_alpha
         then (let k1 = keep_alpha[0 := True]
               in if bias_used s then k1[length k1 - 1 := True] else k1)
         else keep_alpha)"

definition prune :: "rvm \<Rightarrow> error + rvm" where
  "prune s =
     (case fitted s of
        None \<Rightarrow> Inl AttributeError
      | Some a \<Rightarrow>
          if alpha_a a = [] then Inl IndexError
          else
            (let keep_alpha = keep_mask s a;
                 s1 = (if bias_used s \<and> \<not> last keep_alpha then s\<lparr>bias_used := False\<rparr> else s)
             in bindE (bool_index (relevance_a a) (if bias_used s then butlast keep_alpha else keep_alpha))
                  (\<lambda>rel.
                bindE (bool_index (alpha_old a) keep_alpha) (\<lambda>ao.
                bindE (case gamma a of None \<Rightarrow> Inl AttributeError
                                     | Some g \<Rightarrow> bool_index g keep_alpha) (\<lambda>g.
                bindE (if \<exists>r \<in> set (phi a). length r \<noteq> length keep_alpha then Inl IndexError
                       else Inr (map (compress keep_alpha) (phi a))) (\<lambda>ph.
                bindE (case sigma_a a of None \<Rightarrow> Inl AttributeError
                         | Some sg \<Rightarrow>
                             if length sg \<noteq> length keep_alpha
                                \<or> (\<exists>r \<in> set sg. length r \<noteq> length keep_alpha)
                             then Inl IndexError
                             else Inr (map (compress keep_alpha) (compress keep_alpha sg))) (\<lambda>sg.
                bindE (bool_index (m_a a) keep_alpha) (\<lambda>m.
                  Inr (s1\<lparr>fitted := Some (a\<lparr>relevance_a := rel,
                                             alpha_a := compress keep_alpha (alpha_a a),
                                             alpha_old := ao,
                                             gamma := Some g,
                                             phi := ph,
                                             sigma_a := Some sg,
                                             m_a := m\<rparr>)\<rparr>)))))))))"

subsection \<open>\<^verbatim>\<open>BaseRVM.fit\<close> (lines 117 to 181)\<close>

text \<open>
  \<^verbatim>\<open>check_X_y\<close> of scikit-learn: a two-dimensional array with at least one row and one
  column, a target of the same length; infinite and nan entries are refused, so the
  accepted arrays hold finite numbers.
\<close>

definition check_X_y :: "mat \<Rightarrow> vec \<Rightarrow> error + (mat \<times> vec)" where
  "check_X_y X y =
     (if X = [] \<or> ncols X = 0 \<or> (\<exists>r \<in> set X. length r \<noteq> ncols X) \<or> length y \<noteq> length X
      then Inl ValueError else Inr (X, y))"

text \<open>
  Lines 151 to 156: \<^verbatim>\<open>gamma\<close>, the new \<^verbatim>\<open>alpha_\<close>, and the new \<^verbatim>\<open>beta_\<close> unless it is
  fixed. \<open>n_samples\<close> is the local variable of line 131.
\<close>

definition hyper_update :: "nat \<Rightarrow> rvm \<Rightarrow> error + rvm" where
  "hyper_update n_samples s =
     (case fitted s of
        None \<Rightarrow> Inl AttributeError
      | Some a \<Rightarrow>
         (case sigma_a a of
            None \<Rightarrow> Inl AttributeError
          | Some sg \<Rightarrow>
             (case all_fin (alpha_a a) of
                None \<Rightarrow> Inl NonFinite
              | Some al \<Rightarrow>
                  if length (diagonal sg) \<noteq> length al \<or> length (m_a a) \<noteq> length al
                  then Inl ValueError
                  else
                    (let g = map2 (\<lambda>x d. 1 - x * d) al (diagonal sg);
                         a1 = a\<lparr>gamma := Some g,
                                alpha_a := map2 fdiv g (map (\<lambda>x. x ^ 2) (m_a a))\<rparr>
                     in if \<not> beta_fixed s
                        then
                          if length (y_a a) \<noteq> length (phi a)
                             \<or> (\<exists>r \<in> set (phi a). length r \<noteq> length (m_a a))
                          then Inl ValueError
                          else Inr (s\<lparr>fitted := Some (a1\<lparr>
                                 beta_a := fdiv (real n_samples - sum_list g)
                                             (sum_list (map (\<lambda>x. x ^ 2)
                                                (map2 (-) (y_a a) (dot_mv (phi a) (m_a a))))),
                                 beta_np := True\<rparr>)\<rparr>)
                        else Inr (s\<lparr>fitted := Some a1\<rparr>)))))"

text \<open>Line 168: \<^verbatim>\<open>np.amax(np.absolute(self.alpha_ - self.alpha_old))\<close>.\<close>

definition delta_of :: "attrs \<Rightarrow> error + npfloat" where
  "delta_of a =
     (if length (alpha_a a) \<noteq> length (alpha_old a) then Inl ValueError
      else amax (map fabs (map2 fsub (alpha_a a) (alpha_old a))))"

text \<open>
  One pass of the loop body (lines 149 to 174) at index \<open>i\<close>. The result says whether
  the \<^verbatim>\<open>break\<close> of line 172 was taken. Printing is not modelled, but the test of line
  160 is evaluated: \<^verbatim>\<open>(i+1) % self.verb_freq\<close> raises on a zero \<^verbatim>\<open>verb_freq\<close>.
\<close>

definition iteration :: "nat \<Rightarrow> int \<Rightarrow> rvm \<Rightarrow> error + (bool \<times> rvm)" where
  "iteration n_samples i s =
     bindE (posterior s) (\<lambda>s1.
     bindE (hyper_update n_samples s1) (\<lambda>s2.
     bindE (prune s2) (\<lambda>s3.
       if verbose s3 \<and> verb_freq s3 = 0 then Inl ZeroDivisionError
       else
         (case fitted s3 of
            None \<Rightarrow> Inl AttributeError
          | Some a \<Rightarrow>
              bindE (delta_of a) (\<lambda>delta.
                if fless delta (tol s3) \<and> 1 < i then Inr (True, s3)
                else Inr (False, s3\<lparr>fitted := Some (a\<lparr>alpha_old := alpha_a a\<rparr>)\<rparr>))))))"

text \<open>
  \<^verbatim>\<open>for i in range(self.n_iter)\<close>: the bound \<open>n\<close> is read once, before the first pass.
\<close>

function fit_loop :: "int \<Rightarrow> nat \<Rightarrow> nat \<Rightarrow> rvm \<Rightarrow> error + rvm" where
  "fit_loop n n_samples i s =
     (if int i < n
      then (case iteration n_samples (int i) s of
              Inl e \<Rightarrow> Inl e
            | Inr (stop, s') \<Rightarrow> if stop then Inr s' else fit_loop n n_samples (Suc i) s')
      else Inr s)"
  by pat_completeness auto
termination
  by (relation "measure (\<lambda>(n, ns, i, s). nat n - i)") auto


text \<open>
  The attributes before the first assignment of \<^verbatim>\<open>fit\<close>: those of the previous call
  when there was one (\<^verbatim>\<open>gamma\<close>, \<^verbatim>\<open>sigma_\<close> and \<^verbatim>\<open>bias\<close> stay until they are assigned
  again), none otherwise.
\<close>

definition attrs0 :: "rvm \<Rightarrow> attrs" where
  "attrs0 s =
     (case fitted s of
        Some a \<Rightarrow> a
      | None \<Rightarrow> \<lparr>phi = [], labels = [], relevance_a = [], y_a = [], alpha_a = [],
                  beta_a = beta s, beta_np = False, m_a = [], alpha_old = [],
                  gamma = None, sigma_a = None, bias = None\<rparr>)"

text \<open>Lines 133 to 146: the object when the loop is entered.\<close>

definition start :: "rvm \<Rightarrow> mat \<Rightarrow> vec \<Rightarrow> string list \<Rightarrow> rvm" where
  "start s X y X_labels =
     (let n_basis_functions = ncols X
      in s\<lparr>fitted := Some ((attrs0 s)\<lparr>phi := X, labels := X_labels, relevance_a := X, y_a := y,
                alpha_a := replicate n_basis_functions (alpha s),
                beta_a := beta s, beta_np := False,
                m_a := replicate n_basis_functions 0,
                alpha_old := replicate n_basis_functions (alpha s)\<rparr>)\<rparr>)"

text \<open>Lines 176 to 179: \<^verbatim>\<open>self.bias\<close>.\<close>

definition finish :: "rvm \<Rightarrow> error + rvm" where
  "finish s =
     (case fitted s of
        None \<Rightarrow> Inl AttributeError
      | Some a \<Rightarrow>
          if bias_used s
          then (if m_a a = [] then Inl IndexError
                else Inr (s\<lparr>fitted := Some (a\<lparr>bias := Some (last (m_a a))\<rparr>)\<rparr>))
          else Inr (s\<lparr>fitted := Some (a\<lparr>bias := None\<rparr>)\<rparr>))"

definition fit :: "rvm \<Rightarrow> mat \<Rightarrow> vec \<Rightarrow> string list \<Rightarrow> error + rvm" where
  "fit s X0 y0 X_labels =
     bindE (check_X_y X0 y0) (\<lambda>(X, y).
       (let n_samples = length X
        in bindE (fit_loop (n_iter s) n_samples 0 (start s X y X_labels)) finish))"

subsection \<open>\<^verbatim>\<open>RVR.predict\<close> (lines 198 to 208)\<close>

text \<open>\<^verbatim>\<open>1/self.beta_\<close>: Python raises on a zero float, NumPy returns inf.\<close>

definition recip_beta :: "attrs \<Rightarrow> error + npfloat" where
  "recip_beta a =
     (case beta_a a of
        Fin b \<Rightarrow> if b \<noteq> 0 then Inr (Fin (1 / b))
                 else if beta_np a then Inr PInf else Inl ZeroDivisionError
      | PInf \<Rightarrow> Inr (Fin 0)
      | NInf \<Rightarrow> Inr (Fin 0)
      | NaN \<Rightarrow> Inr NaN)"

text \<open>
  The result is the prediction alone, or the pair with \<^verbatim>\<open>MSE[:, 0]\<close> when \<^verbatim>\<open>eval_MSE\<close>
  is set. \<open>X\<close> is the list of the rows of the new design matrix.
\<close>

definition predict :: "rvm \<Rightarrow> mat \<Rightarrow> bool \<Rightarrow> error + (vec \<times> npfloat list option)" where
  "predict s X eval_MSE =
     (case fitted s of
        None \<Rightarrow> Inl AttributeError
      | Some a \<Rightarrow>
          if \<exists>r \<in> set X. length r \<noteq> length (m_a a) then Inl ValueError
          else
            (let y = dot_mv X (m_a a)
             in if eval_MSE
                then bindE (recip_beta a) (\<lambda>rb.
                       case sigma_a a of
                         None \<Rightarrow> Inl AttributeError
                       | Some sg \<Rightarrow>
                           if length sg \<noteq> length (m_a a) then Inl ValueError
                           else
                             (let MSE = map (map (\<lambda>q. fadd rb (Fin q))) (dot_mm X (dot_mm sg (T_m X)))
                              in if X = [] then Inl IndexError
                                 else Inr (y, Some (map (\<lambda>r. r ! 0) MSE))))
                else Inr (y, None)))"

subsection \<open>Test objects\<close>

text \<open>
  The estimator \<^verbatim>\<open>RVR(n_iter=1, alpha=1.0, beta=1.0, beta_fixed=bf, bias_used=bu,
  verbose=False)\<close>, the other arguments at their defaults, and the objects three short
  runs of \<^verbatim>\<open>fit\<close> go through. All numbers of these runs are dyadic fractions.
\<close>

definition rvr1 :: "bool \<Rightarrow> bool \<Rightarrow> rvm" where
  "rvr1 bf bu = init 1 (Fin (1/1000)) (Fin 1) (Fin 1000000000) (Fin 1) bf bu False 10"








text \<open>One feature, one sample, target 0: the object when the loop is entered.\<close>

definition z0 :: rvm where
  "z0 =
     \<lparr>n_iter = 1, tol = Fin (1 / 1000), alpha = Fin 1, threshold_alpha = Fin 1000000000,
     beta = Fin 1, beta_fixed = False, bias_used = False, verbose = False,
     verb_freq = 10,
     fitted = Some
       \<lparr>phi = [[1]], labels = [], relevance_a = [[1]], y_a = [0], alpha_a = [Fin 1],
        beta_a = Fin 1, beta_np = False, m_a = [0], alpha_old = [Fin 1], gamma = None,
        sigma_a = None, bias = None\<rparr>\<rparr>"

text \<open>after \<^verbatim>\<open>_posterior\<close>: the weight is exactly zero.\<close>

definition z1 :: rvm where
  "z1 =
     \<lparr>n_iter = 1, tol = Fin (1 / 1000), alpha = Fin 1, threshold_alpha = Fin 1000000000,
     beta = Fin 1, beta_fixed = False, bias_used = False, verbose = False,
     verb_freq = 10,
     fitted = Some
       \<lparr>phi = [[1]], labels = [], relevance_a = [[1]], y_a = [0], alpha_a = [Fin 1],
        beta_a = Fin 1, beta_np = False, m_a = [0], alpha_old = [Fin 1], gamma = None,
        sigma_a = Some [[1 / 2]], bias = None\<rparr>\<rparr>"





text \<open>One feature that is 0 on the only sample, and the bias column; target 2: the object when the loop is entered.\<close>

definition ob0 :: rvm where
  "ob0 =
     \<lparr>n_iter = 1, tol = Fin (1 / 1000), alpha = Fin 1, threshold_alpha = Fin 1000000000,
     beta = Fin 1, beta_fixed = False, bias_used = True, verbose = False, verb_freq = 10,
     fitted = Some
       \<lparr>phi = [[0, 1]], labels = [''x''], relevance_a = [[0, 1]], y_a = [2],
        alpha_a = [Fin 1, Fin 1], beta_a = Fin 1, beta_np = False, m_a = [0, 0],
        alpha_old = [Fin 1, Fin 1], gamma = None, sigma_a = None, bias = None\<rparr>\<rparr>"

text \<open>after \<^verbatim>\<open>_posterior\<close>.\<close>

definition ob1 :: rvm where
  "ob1 =
     \<lparr>n_iter = 1, tol = Fin (1 / 1000), alpha = Fin 1, threshold_alpha = Fin 1000000000,
     beta = Fin 1, beta_fixed = False, bias_used = True, verbose = False, verb_freq = 10,
     fitted = Some
       \<lparr>phi = [[0, 1]], labels = [''x''], relevance_a = [[0, 1]], y_a = [2],
        alpha_a = [Fin 1, Fin 1], beta_a = Fin 1, beta_np = False, m_a = [0, 1],
        alpha_old = [Fin 1, Fin 1], gamma = None, sigma_a = Some [[1, 0], [0, 1 / 2]],
        bias = None\<rparr>\<rparr>"

text \<open>after lines 151 to 156.\<close>

definition ob2 :: rvm where
  "ob2 =
     \<lparr>n_iter = 1, tol = Fin (1 / 1000), alpha = Fin 1, threshold_alpha = Fin 1000000000,
     beta = Fin 1, beta_fixed = False, bias_used = True, verbose = False, verb_freq = 10,
     fitted = Some
       \<lparr>phi = [[0, 1]], labels = [''x''], relevance_a = [[0, 1]], y_a = [2],
        alpha_a = [NaN, Fin (1 / 2)], beta_a = Fin (1 / 2), beta_np = True, m_a = [0, 1],
        alpha_old = [Fin 1, Fin 1], gamma = Some [0, 1 / 2],
        sigma_a = Some [[1, 0], [0, 1 / 2]], bias = None\<rparr>\<rparr>"

text \<open>after \<^verbatim>\<open>_prune\<close>: only the bias column is left.\<close>

definition ob3 :: rvm where
  "ob3 =
     \<lparr>n_iter = 1, tol = Fin (1 / 1000), alpha = Fin 1, threshold_alpha = Fin 1000000000,
     beta = Fin 1, beta_fixed = False, bias_used = True, verbose = False, verb_freq = 10,
     fitted = Some
       \<lparr>phi = [[1]], labels = [''x''], relevance_a = [], y_a = [2],
        alpha_a = [Fin (1 / 2)], beta_a = Fin (1 / 2), beta_np = True, m_a = [1],
        alpha_old = [Fin 1], gamma = Some [1 / 2], sigma_a = Some [[1 / 2]], bias = None\<rparr>\<rparr>"


text \<open>
  The same estimator with the default \<^verbatim>\<open>n_iter=3000\<close>, on one feature with the target 2:
  the object when the loop is entered, after pass 0, and after pass 1. Pass 1 and pass
  2 change nothing but \<^verbatim>\<open>sigma_\<close>.
\<close>

definition rvr3000 :: rvm where
  "rvr3000 = init 3000 (Fin (1/1000)) (Fin 1) (Fin 1000000000) (Fin 1) False False False 10"

definition cv0 :: rvm where
  "cv0 =
     \<lparr>n_iter = 3000, tol = Fin (1 / 1000), alpha = Fin 1,
     threshold_alpha = Fin 1000000000, beta = Fin 1, beta_fixed = False,
     bias_used = False, verbose = False, verb_freq = 10,
     fitted = Some
       \<lparr>phi = [[1]], labels = [], relevance_a = [[1]], y_a = [2], alpha_a = [Fin 1],
        beta_a = Fin 1, beta_np = False, m_a = [0], alpha_old = [Fin 1], gamma = None,
        sigma_a = None, bias = None\<rparr>\<rparr>"

definition cv1 :: rvm where
  "cv1 =
     \<lparr>n_iter = 3000, tol = Fin (1 / 1000), alpha = Fin 1,
     threshold_alpha = Fin 1000000000, beta = Fin 1, beta_fixed = False,
     bias_used = False, verbose = False, verb_freq = 10,
     fitted = Some
       \<lparr>phi = [[1]], labels = [], relevance_a = [[1]], y_a = [2],
        alpha_a = [Fin (1 / 2)], beta_a = Fin (1 / 2), beta_np = True, m_a = [1],
        alpha_old = [Fin (1 / 2)], gamma = Some [1 / 2], sigma_a = Some [[1 / 2]],
        bias = None\<rparr>\<rparr>"

definition cv2 :: rvm where
  "cv2 =
     \<lparr>n_iter = 3000, tol = Fin (1 / 1000), alpha = Fin 1,
     threshold_alpha = Fin 1000000000, beta = Fin 1, beta_fixed = False,
     bias_used = False, verbose = False, verb_freq = 10,
     fitted = Some
       \<lparr>phi = [[1]], labels = [], relevance_a = [[1]], y_a = [2],
        alpha_a = [Fin (1 / 2)], beta_a = Fin (1 / 2), beta_np = True, m_a = [1],
        alpha_old = [Fin (1 / 2)], gamma = Some [1 / 2], sigma_a = Some [[1]],
        bias = None\<rparr>\<rparr>"

section \<open>Evaluation on concrete objects\<close>

lemmas model_defs = fit_def start_def finish_def check_X_y_def ncols_def attrs0_def init_def bindE_def iteration_def
  posterior_def all_fin_def madd_def diag_m_def smul_def dot_mm_def T_m_def col_def dotv_def
  dot_mv_def linalg_inv_def mat_of_def sw_def hyper_update_def diagonal_def fdiv_def prune_def
  keep_mask_def bool_index_def compress_def delta_of_def amax_def predict_def recip_beta_def
  Let_def








lemma z_start: "start (rvr1 False False) [[1]] [0] [] = z0"
  by (simp add: model_defs rvr1_def z0_def)

lemma z_posterior: "posterior z0 = Inr z1"
  by (simp add: model_defs z0_def z1_def)






lemma ob_start: "start (rvr1 False True) [[0, 1]] [2] [''x''] = ob0"
  by (simp add: model_defs rvr1_def ob0_def)

lemma ob_posterior: "posterior ob0 = Inr ob1"
  by (simp add: model_defs ob0_def ob1_def)

lemma ob_update: "hyper_update 1 ob1 = Inr ob2"
  by (simp add: model_defs ob1_def ob2_def)

lemma ob_prune: "prune ob2 = Inr ob3"
  by (simp add: model_defs ob2_def ob3_def)


lemma cv_start: "start rvr3000 [[1]] [2] [] = cv0"
  by (simp add: model_defs rvr3000_def cv0_def)

lemma cv_pass0: "iteration 1 0 cv0 = Inr (False, cv1)"
  by (simp add: model_defs cv0_def cv1_def)

lemma cv_pass1: "iteration 1 1 cv1 = Inr (False, cv2)"
  by (simp add: model_defs cv1_def cv2_def)

lemma cv_pass2: "iteration 1 2 cv2 = Inr (True, cv2)"
  by (simp add: model_defs cv2_def)

lemma cv_finish: "finish cv2 = Inr cv2"
  by (simp add: finish_def cv2_def)

lemma cv_fit: "fit rvr3000 [[1]] [2] [] = Inr cv2"
proof -
  have c: "check_X_y [[1]] [2] = Inr ([[1]], [2])" by (simp add: check_X_y_def ncols_def)
  have n: "n_iter rvr3000 = 3000" by (simp add: rvr3000_def init_def)
  have "fit_loop 3000 1 0 cv0 = Inr cv2"
    using cv_pass0 cv_pass1 cv_pass2 by (simp add: numeral_2_eq_2)
  then show ?thesis by (simp add: fit_def bindE_def c n cv_start cv_finish)
qed

section \<open>Auxiliary facts\<close>

lemma bindE_Inr: "bindE r f = Inr y \<longleftrightarrow> (\<exists>v. r = Inr v \<and> f v = Inr y)"
  by (cases r) (simp_all add: bindE_def)

lemma length_compress: "length (compress k xs) = length (filter id (take (length xs) k))"
proof (induction k arbitrary: xs)
  case Nil
  then show ?case by (simp add: compress_def)
next
  case (Cons b k)
  then show ?case by (cases xs) (auto simp: compress_def)
qed

lemma length_compress_eq: "length xs = length k \<Longrightarrow> length (compress k xs) = length (filter id k)"
  by (simp add: length_compress)


lemma length_keep_mask: "length (keep_mask s a) = length (alpha_a a)"
  by (simp add: keep_mask_def Let_def)

lemma bool_index_Inr: "bool_index xs k = Inr ys \<longleftrightarrow> length k = length xs \<and> ys = compress k xs"
  by (auto simp: bool_index_def)

lemma flag_update:
  "(if bias_used s \<and> \<not> b then s\<lparr>bias_used := False\<rparr> else s) = s\<lparr>bias_used := bias_used s \<and> b\<rparr>"
  by (cases "bias_used s"; cases b) simp_all

lemma prune_Inr:
  assumes "prune s = Inr s'" and "fitted s = Some a"
  shows "alpha_a a \<noteq> []"
    and "gamma a = Some (the (gamma a))"
    and "sigma_a a = Some (the (sigma_a a))"
    and "length (relevance_a a) = length (if bias_used s then butlast (keep_mask s a) else keep_mask s a)"
    and "length (alpha_old a) = length (alpha_a a)"
    and "length (the (gamma a)) = length (alpha_a a)"
    and "\<forall>r \<in> set (phi a). length r = length (alpha_a a)"
    and "length (the (sigma_a a)) = length (alpha_a a)"
    and "\<forall>r \<in> set (the (sigma_a a)). length r = length (alpha_a a)"
    and "length (m_a a) = length (alpha_a a)"
    and "s' = s\<lparr>bias_used := bias_used s \<and> last (keep_mask s a),
              fitted := Some (a\<lparr>relevance_a := compress (if bias_used s then butlast (keep_mask s a) else keep_mask s a) (relevance_a a),
                   alpha_a := compress (keep_mask s a) (alpha_a a),
                   alpha_old := compress (keep_mask s a) (alpha_old a),
                   gamma := Some (compress (keep_mask s a) (the (gamma a))),
                   phi := map (compress (keep_mask s a)) (phi a),
                   sigma_a := Some (map (compress (keep_mask s a)) (compress (keep_mask s a) (the (sigma_a a)))),
                   m_a := compress (keep_mask s a) (m_a a)\<rparr>)\<rparr>"
  using assms
  unfolding prune_def Let_def flag_update
  by (auto simp: bindE_Inr bool_index_Inr length_keep_mask split: option.splits if_splits)



lemma the_fin_Some: "the_fin x = Some r \<longleftrightarrow> x = Fin r"
  by (cases x) auto

lemma all_fin_Some:
  assumes "all_fin xs = Some al"
  shows "length al = length xs" and "\<And>i. i < length xs \<Longrightarrow> xs ! i = Fin (al ! i)"
proof -
  from assms have fin: "\<forall>x \<in> set xs. the_fin x \<noteq> None" and al: "al = map (\<lambda>x. the (the_fin x)) xs"
    by (auto simp: all_fin_def split: if_splits)
  show "length al = length xs" by (simp add: al)
  fix i assume i: "i < length xs"
  then have "the_fin (xs ! i) \<noteq> None" using fin by simp
  then obtain r where "the_fin (xs ! i) = Some r" by auto
  then show "xs ! i = Fin (al ! i)" using i by (simp add: al the_fin_Some)
qed

lemma length_diagonal: "length (diagonal S) = length S"
  by (simp add: diagonal_def)

lemma hyper_update_Inr:
  assumes "hyper_update n s = Inr s'" and "fitted s = Some a"
  shows "\<exists>sg al. sigma_a a = Some sg \<and> all_fin (alpha_a a) = Some al \<and> length sg = length al
           \<and> length (m_a a) = length al
           \<and> (\<not> beta_fixed s \<longrightarrow> length (y_a a) = length (phi a) \<and> (\<forall>r \<in> set (phi a). length r = length (m_a a)))
           \<and> s' = s\<lparr>fitted := Some
                 ((if beta_fixed s then (\<lambda>x. x)
                   else (\<lambda>x. x\<lparr>beta_a := fdiv (real n - sum_list (map2 (\<lambda>x d. 1 - x * d) al (diagonal sg)))
                                     (sum_list (map (\<lambda>x. x ^ 2) (map2 (-) (y_a a) (dot_mv (phi a) (m_a a))))),
                               beta_np := True\<rparr>))
                  (a\<lparr>gamma := Some (map2 (\<lambda>x d. 1 - x * d) al (diagonal sg)),
                     alpha_a := map2 fdiv (map2 (\<lambda>x d. 1 - x * d) al (diagonal sg)) (map (\<lambda>x. x ^ 2) (m_a a))\<rparr>))\<rparr>"
  using assms unfolding hyper_update_def Let_def
  by (auto simp: length_diagonal split: option.splits if_splits)




lemma posterior_Inr:
  assumes "posterior s = Inr s'" and "fitted s = Some a"
  shows "\<exists>al b sg. all_fin (alpha_a a) = Some al \<and> beta_a a = Fin b
           \<and> length al = ncols (phi a) \<and> length (y_a a) = length (phi a)
           \<and> linalg_inv (madd (diag_m al) (smul b (dot_mm (T_m (phi a)) (phi a)))) = Inr sg
           \<and> s' = s\<lparr>fitted := Some (a\<lparr>sigma_a := Some sg,
                        m_a := map ((*) b) (dot_mv sg (dot_mv (T_m (phi a)) (y_a a)))\<rparr>)\<rparr>"
  using assms unfolding posterior_def Let_def
  by (auto simp: bindE_Inr the_fin_Some split: option.splits if_splits)


lemma iteration_Inr:
  assumes "iteration ns i s = Inr (b, s')"
  shows "\<exists>s1 s2 s3 a3 d. posterior s = Inr s1 \<and> hyper_update ns s1 = Inr s2 \<and> prune s2 = Inr s3
           \<and> \<not> (verbose s3 \<and> verb_freq s3 = 0) \<and> fitted s3 = Some a3 \<and> delta_of a3 = Inr d
           \<and> b = (fless d (tol s3) \<and> 1 < i)
           \<and> s' = (if b then s3 else s3\<lparr>fitted := Some (a3\<lparr>alpha_old := alpha_a a3\<rparr>)\<rparr>)"
  using assms unfolding iteration_def
  by (auto simp: bindE_Inr split: option.splits if_splits)

lemma fit_loop_invariant:
  assumes step: "\<And>ns i s b s'. P s \<Longrightarrow> iteration ns (int i) s = Inr (b, s') \<Longrightarrow> P s'"
  shows "P s \<Longrightarrow> fit_loop n ns i s = Inr s' \<Longrightarrow> P s'"
proof (induction n ns i s rule: fit_loop.induct)
  case (1 n ns i s)
  show ?case
  proof (cases "int i < n")
    case False
    with "1.prems" show ?thesis by simp
  next
    case True
    with "1.prems"(2) obtain b t where it: "iteration ns (int i) s = Inr (b, t)"
      by (cases "iteration ns (int i) s") (auto split: prod.splits)
    have Pt: "P t" using step [OF "1.prems"(1) it] .
    show ?thesis
    proof (cases b)
      case True
      with it \<open>int i < n\<close> "1.prems"(2) have "s' = t" by simp
      with Pt show ?thesis by simp
    next
      case False
      with it \<open>int i < n\<close> "1.prems"(2) have "fit_loop n ns (Suc i) t = Inr s'" by simp
      from "1.IH" [OF \<open>int i < n\<close> it refl False Pt this] show ?thesis .
    qed
  qed
qed

lemma list_ex_id_map: "list_ex id (map f xs) = list_ex f xs"
  by (induction xs) auto

lemma keep_mask_nth:
  assumes "i < length (alpha_a a)"
  shows "keep_mask s a ! i =
           (if list_ex (\<lambda>x. fless x (threshold_alpha s)) (alpha_a a)
            then fless (alpha_a a ! i) (threshold_alpha s)
            else (i = 0 \<or> bias_used s \<and> i = length (alpha_a a) - 1))"
proof (cases "list_ex (\<lambda>x. fless x (threshold_alpha s)) (alpha_a a)")
  case True
  then show ?thesis using assms by (simp add: keep_mask_def Let_def list_ex_id_map)
next
  case False
  then have "\<not> fless (alpha_a a ! i) (threshold_alpha s)"
    using assms by (auto simp: list_ex_iff)
  moreover have "0 < length (alpha_a a)" "length (alpha_a a) - 1 < length (alpha_a a)"
    using assms by (cases "alpha_a a", simp, simp)+
  ultimately show ?thesis using False assms
    by (auto simp: keep_mask_def Let_def list_ex_id_map nth_list_update)
qed

lemma keep_mask_has_True:
  assumes "alpha_a a \<noteq> []"
  shows "True \<in> set (keep_mask s a)"
proof (cases "list_ex (\<lambda>x. fless x (threshold_alpha s)) (alpha_a a)")
  case True
  then obtain i where "i < length (alpha_a a)" "fless (alpha_a a ! i) (threshold_alpha s)"
    by (auto simp: list_ex_iff in_set_conv_nth)
  then have "keep_mask s a ! i" "i < length (keep_mask s a)"
    using True by (simp_all add: keep_mask_nth length_keep_mask)
  then show ?thesis by (metis (full_types) nth_mem)
next
  case False
  have 0: "0 < length (alpha_a a)" using assms by simp
  then have "keep_mask s a ! 0" using False by (simp add: keep_mask_nth)
  moreover have "0 < length (keep_mask s a)" using 0 by (simp add: length_keep_mask)
  ultimately show ?thesis by (metis (full_types) nth_mem)
qed

lemma compress_nonempty:
  assumes "length xs = length k" and "True \<in> set k"
  shows "compress k xs \<noteq> []"
proof -
  have "filter id k \<noteq> []" using assms(2) by (auto simp: filter_empty_conv)
  then have "length (compress k xs) \<noteq> 0" using assms(1) by (simp add: length_compress_eq)
  then show ?thesis by auto
qed



lemma set_compress: "set (compress k xs) \<subseteq> set xs"
proof -
  have "set (map snd (filter fst (zip k xs))) \<subseteq> snd ` set (zip k xs)" by auto
  also have "\<dots> \<subseteq> set xs" by (auto dest: set_zip_rightD)
  finally show ?thesis by (simp add: compress_def)
qed

lemma prune_config:
  assumes "prune s = Inr s'" and "fitted s = Some a"
  shows "bias_used s' = (bias_used s \<and> last (keep_mask s a))"
    and "n_iter s' = n_iter s" and "tol s' = tol s" and "alpha s' = alpha s"
    and "threshold_alpha s' = threshold_alpha s" and "beta s' = beta s"
    and "beta_fixed s' = beta_fixed s" and "verbose s' = verbose s" and "verb_freq s' = verb_freq s"
  by (simp_all add: prune_Inr(11) [OF assms])

lemma prune_fields:
  assumes "prune s = Inr s'" and "fitted s = Some a"
  shows "fitted s' \<noteq> None"
    and "alpha_a (the (fitted s')) = compress (keep_mask s a) (alpha_a a)"
    and "alpha_old (the (fitted s')) = compress (keep_mask s a) (alpha_old a)"
    and "gamma (the (fitted s')) = Some (compress (keep_mask s a) (the (gamma a)))"
    and "m_a (the (fitted s')) = compress (keep_mask s a) (m_a a)"
    and "phi (the (fitted s')) = map (compress (keep_mask s a)) (phi a)"
    and "sigma_a (the (fitted s')) = Some (map (compress (keep_mask s a)) (compress (keep_mask s a) (the (sigma_a a))))"
    and "labels (the (fitted s')) = labels a"
    and "relevance_a (the (fitted s')) = compress (if bias_used s then butlast (keep_mask s a) else keep_mask s a) (relevance_a a)"
    and "y_a (the (fitted s')) = y_a a"
    and "beta_a (the (fitted s')) = beta_a a"
  by (simp_all add: prune_Inr(11) [OF assms])

lemma length_compress_mask:
  "length xs = length (alpha_a a) \<Longrightarrow> length (compress (keep_mask s a) xs) = length (filter id (keep_mask s a))"
  by (simp add: length_compress_eq length_keep_mask)

lemma prune_length_alpha:
  assumes "prune s = Inr s'" and "fitted s = Some a"
  shows "length (alpha_a (the (fitted s'))) = length (filter id (keep_mask s a))"
  unfolding prune_fields(2) [OF assms] by (rule length_compress_mask) simp

lemma prune_length_alpha_old:
  assumes "prune s = Inr s'" and "fitted s = Some a"
  shows "length (alpha_old (the (fitted s'))) = length (filter id (keep_mask s a))"
  unfolding prune_fields(3) [OF assms] by (rule length_compress_mask) (rule prune_Inr(5) [OF assms])

lemma prune_length_m:
  assumes "prune s = Inr s'" and "fitted s = Some a"
  shows "length (m_a (the (fitted s'))) = length (filter id (keep_mask s a))"
  unfolding prune_fields(5) [OF assms] by (rule length_compress_mask) (rule prune_Inr(10) [OF assms])

lemma prune_length_gamma:
  assumes "prune s = Inr s'" and "fitted s = Some a"
  shows "length (the (gamma (the (fitted s')))) = length (filter id (keep_mask s a))"
  unfolding prune_fields(4) [OF assms] option.sel by (rule length_compress_mask) (rule prune_Inr(6) [OF assms])

lemma prune_length_sigma:
  assumes "prune s = Inr s'" and "fitted s = Some a"
  shows "length (the (sigma_a (the (fitted s')))) = length (filter id (keep_mask s a))"
  unfolding prune_fields(7) [OF assms] option.sel length_map by (rule length_compress_mask) (rule prune_Inr(8) [OF assms])

lemma prune_length_phi:
  assumes "prune s = Inr s'" and "fitted s = Some a"
  shows "length (phi (the (fitted s'))) = length (phi a)"
  unfolding prune_fields(6) [OF assms] by simp

lemma prune_mask_nonempty:
  assumes "prune s = Inr s'" and "fitted s = Some a"
  shows "filter id (keep_mask s a) \<noteq> []"
proof -
  have "True \<in> set (keep_mask s a)" using prune_Inr(1) [OF assms] by (rule keep_mask_has_True)
  then show ?thesis by (auto simp: filter_empty_conv)
qed

lemma rows_compress:
  assumes "\<forall>r \<in> set M. length r = length (alpha_a a)"
  shows "\<forall>r \<in> set (map (compress (keep_mask s a)) M). length r = length (filter id (keep_mask s a))"
proof
  fix r assume "r \<in> set (map (compress (keep_mask s a)) M)"
  then obtain r0 where r0: "r0 \<in> set M" and r: "r = compress (keep_mask s a) r0"
    unfolding set_map by (rule imageE)
  from assms r0 have "length r0 = length (alpha_a a)" by (rule bspec)
  then show "length r = length (filter id (keep_mask s a))" unfolding r by (rule length_compress_mask)
qed

lemma prune_rows_phi:
  assumes "prune s = Inr s'" and "fitted s = Some a"
  shows "\<forall>r \<in> set (phi (the (fitted s'))). length r = length (filter id (keep_mask s a))"
  unfolding prune_fields(6) [OF assms] by (rule rows_compress) (rule prune_Inr(7) [OF assms])

lemma prune_rows_sigma:
  assumes "prune s = Inr s'" and "fitted s = Some a"
  shows "\<forall>r \<in> set (the (sigma_a (the (fitted s')))). length r = length (filter id (keep_mask s a))"
  unfolding prune_fields(7) [OF assms] option.sel
proof (rule rows_compress)
  show "\<forall>r \<in> set (compress (keep_mask s a) (the (sigma_a a))). length r = length (alpha_a a)"
  proof
    fix r assume "r \<in> set (compress (keep_mask s a) (the (sigma_a a)))"
    then have "r \<in> set (the (sigma_a a))" by (rule set_compress [THEN subsetD])
    with prune_Inr(9) [OF assms] show "length r = length (alpha_a a)" by (rule bspec)
  qed
qed

lemma hyper_update_fields:
  assumes "hyper_update n s = Inr s'" and "fitted s = Some a"
  shows "fitted s' \<noteq> None"
    and "sigma_a a \<noteq> None"
    and "all_fin (alpha_a a) \<noteq> None"
    and "length (the (sigma_a a)) = length (alpha_a a)"
    and "length (m_a a) = length (alpha_a a)"
    and "gamma (the (fitted s')) = Some (map2 (\<lambda>x d. 1 - x * d) (the (all_fin (alpha_a a))) (diagonal (the (sigma_a a))))"
    and "alpha_a (the (fitted s')) = map2 fdiv (the (gamma (the (fitted s')))) (map (\<lambda>x. x ^ 2) (m_a a))"
    and "beta_fixed s \<Longrightarrow> beta_a (the (fitted s')) = beta_a a"
    and "\<not> beta_fixed s \<Longrightarrow> beta_a (the (fitted s')) =
           fdiv (real n - sum_list (the (gamma (the (fitted s')))))
                (sum_list (map (\<lambda>x. x ^ 2) (map2 (-) (y_a a) (dot_mv (phi a) (m_a a)))))"
    and "\<not> beta_fixed s \<Longrightarrow> length (y_a a) = length (phi a)"
    and "\<not> beta_fixed s \<Longrightarrow> \<forall>r \<in> set (phi a). length r = length (m_a a)"
    and "phi (the (fitted s')) = phi a" and "m_a (the (fitted s')) = m_a a"
    and "sigma_a (the (fitted s')) = sigma_a a" and "alpha_old (the (fitted s')) = alpha_old a"
    and "y_a (the (fitted s')) = y_a a" and "labels (the (fitted s')) = labels a"
    and "relevance_a (the (fitted s')) = relevance_a a"
    and "bias_used s' = bias_used s" and "threshold_alpha s' = threshold_alpha s"
    and "n_iter s' = n_iter s" and "tol s' = tol s" and "alpha s' = alpha s" and "beta s' = beta s"
    and "beta_fixed s' = beta_fixed s" and "verbose s' = verbose s" and "verb_freq s' = verb_freq s"
proof -
  from hyper_update_Inr [OF assms] obtain sg al where
    sg: "sigma_a a = Some sg" and al: "all_fin (alpha_a a) = Some al"
    and l: "length sg = length al" "length (m_a a) = length al"
    and bf: "\<not> beta_fixed s \<longrightarrow> length (y_a a) = length (phi a) \<and> (\<forall>r \<in> set (phi a). length r = length (m_a a))"
    and s': "s' = s\<lparr>fitted := Some
                 ((if beta_fixed s then (\<lambda>x. x)
                   else (\<lambda>x. x\<lparr>beta_a := fdiv (real n - sum_list (map2 (\<lambda>x d. 1 - x * d) al (diagonal sg)))
                                     (sum_list (map (\<lambda>x. x ^ 2) (map2 (-) (y_a a) (dot_mv (phi a) (m_a a))))),
                               beta_np := True\<rparr>))
                  (a\<lparr>gamma := Some (map2 (\<lambda>x d. 1 - x * d) al (diagonal sg)),
                     alpha_a := map2 fdiv (map2 (\<lambda>x d. 1 - x * d) al (diagonal sg)) (map (\<lambda>x. x ^ 2) (m_a a))\<rparr>))\<rparr>"
    by auto
  have lal: "length al = length (alpha_a a)" by (rule all_fin_Some(1) [OF al])
  show "fitted s' \<noteq> None" by (simp add: s')
  show "sigma_a a \<noteq> None" by (simp add: sg)
  show "all_fin (alpha_a a) \<noteq> None" by (simp add: al)
  show "length (the (sigma_a a)) = length (alpha_a a)" by (simp add: sg l lal)
  show "length (m_a a) = length (alpha_a a)" by (simp add: l lal)
  show g: "gamma (the (fitted s')) = Some (map2 (\<lambda>x d. 1 - x * d) (the (all_fin (alpha_a a))) (diagonal (the (sigma_a a))))"
    by (simp add: s' sg al)
  show "alpha_a (the (fitted s')) = map2 fdiv (the (gamma (the (fitted s')))) (map (\<lambda>x. x ^ 2) (m_a a))"
    unfolding g by (simp add: s' sg al)
  show "beta_fixed s \<Longrightarrow> beta_a (the (fitted s')) = beta_a a" by (simp add: s')
  show "\<not> beta_fixed s \<Longrightarrow> beta_a (the (fitted s')) =
           fdiv (real n - sum_list (the (gamma (the (fitted s')))))
                (sum_list (map (\<lambda>x. x ^ 2) (map2 (-) (y_a a) (dot_mv (phi a) (m_a a)))))"
    unfolding g by (simp add: s' sg al)
  show "\<not> beta_fixed s \<Longrightarrow> length (y_a a) = length (phi a)" using bf by simp
  show "\<not> beta_fixed s \<Longrightarrow> \<forall>r \<in> set (phi a). length r = length (m_a a)" using bf by simp
  show "phi (the (fitted s')) = phi a" "m_a (the (fitted s')) = m_a a"
    "sigma_a (the (fitted s')) = sigma_a a" "alpha_old (the (fitted s')) = alpha_old a"
    "y_a (the (fitted s')) = y_a a" "labels (the (fitted s')) = labels a"
    "relevance_a (the (fitted s')) = relevance_a a"
    by (simp_all add: s')
  show "bias_used s' = bias_used s" "threshold_alpha s' = threshold_alpha s"
    "n_iter s' = n_iter s" "tol s' = tol s" "alpha s' = alpha s" "beta s' = beta s"
    "beta_fixed s' = beta_fixed s" "verbose s' = verbose s" "verb_freq s' = verb_freq s"
    by (simp_all add: s')
qed

lemma posterior_fields:
  assumes "posterior s = Inr s'" and "fitted s = Some a"
  shows "fitted s' \<noteq> None"
    and "phi (the (fitted s')) = phi a" and "alpha_a (the (fitted s')) = alpha_a a"
    and "alpha_old (the (fitted s')) = alpha_old a" and "gamma (the (fitted s')) = gamma a"
    and "y_a (the (fitted s')) = y_a a" and "labels (the (fitted s')) = labels a"
    and "relevance_a (the (fitted s')) = relevance_a a" and "beta_a (the (fitted s')) = beta_a a"
    and "bias (the (fitted s')) = bias a"
    and "bias_used s' = bias_used s" and "threshold_alpha s' = threshold_alpha s"
    and "n_iter s' = n_iter s" and "tol s' = tol s" and "alpha s' = alpha s" and "beta s' = beta s"
    and "beta_fixed s' = beta_fixed s" and "verbose s' = verbose s" and "verb_freq s' = verb_freq s"
    and "length (alpha_a a) = ncols (phi a)" and "length (y_a a) = length (phi a)"
proof -
  from posterior_Inr [OF assms] obtain al b sg where
    al: "all_fin (alpha_a a) = Some al" and k: "length al = ncols (phi a)"
    and y: "length (y_a a) = length (phi a)"
    and s': "s' = s\<lparr>fitted := Some (a\<lparr>sigma_a := Some sg,
                        m_a := map ((*) b) (dot_mv sg (dot_mv (T_m (phi a)) (y_a a)))\<rparr>)\<rparr>"
    by blast
  show "fitted s' \<noteq> None"
    and "phi (the (fitted s')) = phi a" and "alpha_a (the (fitted s')) = alpha_a a"
    and "alpha_old (the (fitted s')) = alpha_old a" and "gamma (the (fitted s')) = gamma a"
    and "y_a (the (fitted s')) = y_a a" and "labels (the (fitted s')) = labels a"
    and "relevance_a (the (fitted s')) = relevance_a a" and "beta_a (the (fitted s')) = beta_a a"
    and "bias (the (fitted s')) = bias a"
    and "bias_used s' = bias_used s" and "threshold_alpha s' = threshold_alpha s"
    and "n_iter s' = n_iter s" and "tol s' = tol s" and "alpha s' = alpha s" and "beta s' = beta s"
    and "beta_fixed s' = beta_fixed s" and "verbose s' = verbose s" and "verb_freq s' = verb_freq s"
    by (simp_all add: s')
  show "length (alpha_a a) = ncols (phi a)" using all_fin_Some(1) [OF al] k by simp
  show "length (y_a a) = length (phi a)" by (rule y)
qed


lemma prune_fitted:
  assumes "prune s = Inr s'"
  shows "fitted s \<noteq> None" and "fitted s' \<noteq> None"
proof -
  show "fitted s \<noteq> None" using assms by (cases "fitted s") (simp_all add: prune_def)
  then obtain a where a: "fitted s = Some a" by auto
  show "fitted s' \<noteq> None" by (rule prune_fields(1) [OF assms a])
qed

lemma posterior_fitted:
  assumes "posterior s = Inr s'"
  shows "fitted s \<noteq> None" and "fitted s' \<noteq> None"
proof -
  show "fitted s \<noteq> None" using assms by (cases "fitted s") (simp_all add: posterior_def)
  then obtain a where a: "fitted s = Some a" by auto
  show "fitted s' \<noteq> None" by (rule posterior_fields(1) [OF assms a])
qed

lemma hyper_update_fitted:
  assumes "hyper_update n s = Inr s'"
  shows "fitted s \<noteq> None" and "fitted s' \<noteq> None"
proof -
  show "fitted s \<noteq> None" using assms by (cases "fitted s") (simp_all add: hyper_update_def)
  then obtain a where a: "fitted s = Some a" by auto
  show "fitted s' \<noteq> None" by (rule hyper_update_fields(1) [OF assms a])
qed

text \<open>The three calls of a pass, and what follows them.\<close>

lemma iteration_cases:
  assumes "iteration ns i s = Inr (b, s')"
  obtains s1 s2 s3 d where "posterior s = Inr s1" and "hyper_update ns s1 = Inr s2"
    and "prune s2 = Inr s3" and "\<not> (verbose s3 \<and> verb_freq s3 = 0)"
    and "delta_of (the (fitted s3)) = Inr d"
    and "b = (fless d (tol s3) \<and> 1 < i)"
    and "b \<Longrightarrow> s' = s3"
    and "\<not> b \<Longrightarrow> s' = s3\<lparr>fitted := Some ((the (fitted s3))\<lparr>alpha_old := alpha_a (the (fitted s3))\<rparr>)\<rparr>"
proof -
  from assms obtain s1 where s1: "posterior s = Inr s1"
    by (cases "posterior s") (simp_all add: iteration_def bindE_def)
  from assms s1 obtain s2 where s2: "hyper_update ns s1 = Inr s2"
    by (cases "hyper_update ns s1") (simp_all add: iteration_def bindE_def)
  from assms s1 s2 obtain s3 where s3: "prune s2 = Inr s3"
    by (cases "prune s2") (simp_all add: iteration_def bindE_def)
  from prune_fitted(2) [OF s3] obtain a3 where a3: "fitted s3 = Some a3" by auto
  have v: "\<not> (verbose s3 \<and> verb_freq s3 = 0)"
    using assms s1 s2 s3 by (auto simp: iteration_def bindE_def split: if_splits)
  have v': "(verbose s3 \<and> verb_freq s3 = 0) = False" using v by simp
  from assms s1 s2 s3 a3 v obtain d where d: "delta_of a3 = Inr d"
    by (cases "delta_of a3") (simp_all add: iteration_def bindE_def)
  have E: "iteration ns i s = (if fless d (tol s3) \<and> 1 < i then Inr (True, s3)
            else Inr (False, s3\<lparr>fitted := Some (a3\<lparr>alpha_old := alpha_a a3\<rparr>)\<rparr>))"
    by (simp only: iteration_def bindE_def s1 s2 s3 a3 d v' sum.case if_False option.case)
  have r: "(if fless d (tol s3) \<and> 1 < i then Inr (True, s3)
            else Inr (False, s3\<lparr>fitted := Some (a3\<lparr>alpha_old := alpha_a a3\<rparr>)\<rparr>)) = (Inr (b, s') :: error + bool \<times> rvm)"
    unfolding E [symmetric] by (rule assms)
  have b: "b = (fless d (tol s3) \<and> 1 < i)" using r by (simp split: if_splits)
  have t: "b \<Longrightarrow> s' = s3" using r by (simp split: if_splits)
  have e: "\<not> b \<Longrightarrow> s' = s3\<lparr>fitted := Some ((the (fitted s3))\<lparr>alpha_old := alpha_a (the (fitted s3))\<rparr>)\<rparr>"
    using r a3 by (simp split: if_splits)
  show thesis
  proof (rule that)
    show "posterior s = Inr s1" by (rule s1)
    show "hyper_update ns s1 = Inr s2" by (rule s2)
    show "prune s2 = Inr s3" by (rule s3)
    show "\<not> (verbose s3 \<and> verb_freq s3 = 0)" by (rule v)
    show "delta_of (the (fitted s3)) = Inr d" using d a3 by simp
    show "b = (fless d (tol s3) \<and> 1 < i)" by (rule b)
    show "b \<Longrightarrow> s' = s3" by (rule t)
    show "\<not> b \<Longrightarrow> s' = s3\<lparr>fitted := Some ((the (fitted s3))\<lparr>alpha_old := alpha_a (the (fitted s3))\<rparr>)\<rparr>" by (rule e)
  qed
qed

lemma some_the: "x \<noteq> None \<Longrightarrow> x = Some (the x)"
  by simp

lemma pass_fields:
  assumes "iteration ns i s = Inr (b, s')"
  shows "fitted s \<noteq> None" and "fitted s' \<noteq> None"
    and "n_iter s' = n_iter s" and "tol s' = tol s" and "alpha s' = alpha s"
    and "threshold_alpha s' = threshold_alpha s" and "beta s' = beta s"
    and "beta_fixed s' = beta_fixed s" and "verbose s' = verbose s" and "verb_freq s' = verb_freq s"
    and "bias_used s' \<longrightarrow> bias_used s"
    and "alpha_a (the (fitted s')) \<noteq> []"
    and "length (alpha_old (the (fitted s'))) = length (alpha_a (the (fitted s')))"
    and "length (m_a (the (fitted s'))) = length (alpha_a (the (fitted s')))"
    and "gamma (the (fitted s')) \<noteq> None"
    and "length (the (gamma (the (fitted s')))) = length (alpha_a (the (fitted s')))"
    and "sigma_a (the (fitted s')) \<noteq> None"
    and "length (the (sigma_a (the (fitted s')))) = length (alpha_a (the (fitted s')))"
    and "\<forall>r \<in> set (the (sigma_a (the (fitted s')))). length r = length (alpha_a (the (fitted s')))"
    and "\<forall>r \<in> set (phi (the (fitted s'))). length r = length (alpha_a (the (fitted s')))"
    and "length (phi (the (fitted s'))) = length (phi (the (fitted s)))"
    and "y_a (the (fitted s')) = y_a (the (fitted s))"
    and "labels (the (fitted s')) = labels (the (fitted s))"
proof -
  from assms obtain s1 s2 s3 where p: "posterior s = Inr s1" and h: "hyper_update ns s1 = Inr s2"
    and q: "prune s2 = Inr s3"
    and e: "s' = s3 \<or> s' = s3\<lparr>fitted := Some ((the (fitted s3))\<lparr>alpha_old := alpha_a (the (fitted s3))\<rparr>)\<rparr>"
  proof (rule iteration_cases)
    fix s1 s2 s3 d
    assume 1: "posterior s = Inr s1" "hyper_update ns s1 = Inr s2" "prune s2 = Inr s3"
      and 2: "b \<Longrightarrow> s' = s3"
        "\<not> b \<Longrightarrow> s' = s3\<lparr>fitted := Some ((the (fitted s3))\<lparr>alpha_old := alpha_a (the (fitted s3))\<rparr>)\<rparr>"
    assume r: "\<And>s1 s2 s3. posterior s = Inr s1 \<Longrightarrow> hyper_update ns s1 = Inr s2 \<Longrightarrow> prune s2 = Inr s3 \<Longrightarrow>
         s' = s3 \<or> s' = s3\<lparr>fitted := Some ((the (fitted s3))\<lparr>alpha_old := alpha_a (the (fitted s3))\<rparr>)\<rparr> \<Longrightarrow> thesis"
    have "s' = s3 \<or> s' = s3\<lparr>fitted := Some ((the (fitted s3))\<lparr>alpha_old := alpha_a (the (fitted s3))\<rparr>)\<rparr>"
      using 2 by (cases b) simp_all
    with 1 show thesis by (rule r)
  qed
  have a: "fitted s = Some (the (fitted s))" by (rule some_the [OF posterior_fitted(1) [OF p]])
  have a1: "fitted s1 = Some (the (fitted s1))" by (rule some_the [OF posterior_fitted(2) [OF p]])
  have a2: "fitted s2 = Some (the (fitted s2))" by (rule some_the [OF hyper_update_fitted(2) [OF h]])
  have a3: "fitted s3 = Some (the (fitted s3))" by (rule some_the [OF prune_fitted(2) [OF q]])
  note P = posterior_fields [OF p a] and H = hyper_update_fields [OF h a1]
    and Q = prune_fields [OF q a2] and C = prune_config [OF q a2]
  show "fitted s \<noteq> None" by (rule posterior_fitted(1) [OF p])
  show "fitted s' \<noteq> None" using e a3 by auto
  show "n_iter s' = n_iter s" using e by (auto simp: C P H)
  show "tol s' = tol s" using e by (auto simp: C P H)
  show "alpha s' = alpha s" using e by (auto simp: C P H)
  show "threshold_alpha s' = threshold_alpha s" using e by (auto simp: C P H)
  show "beta s' = beta s" using e by (auto simp: C P H)
  show "beta_fixed s' = beta_fixed s" using e by (auto simp: C P H)
  show "verbose s' = verbose s" using e by (auto simp: C P H)
  show "verb_freq s' = verb_freq s" using e by (auto simp: C P H)
  show "bias_used s' \<longrightarrow> bias_used s" using e by (auto simp: C P H)
  have ne3: "alpha_a (the (fitted s3)) \<noteq> []"
    using prune_length_alpha [OF q a2] prune_mask_nonempty [OF q a2] by auto
  have al: "alpha_a (the (fitted s')) = alpha_a (the (fitted s3))" using e by auto
  show "alpha_a (the (fitted s')) \<noteq> []" unfolding al by (rule ne3)
  show "length (alpha_old (the (fitted s'))) = length (alpha_a (the (fitted s')))"
    using e prune_length_alpha_old [OF q a2] prune_length_alpha [OF q a2] by auto
  have m: "m_a (the (fitted s')) = m_a (the (fitted s3))" using e by auto
  show "length (m_a (the (fitted s'))) = length (alpha_a (the (fitted s')))"
    unfolding m al using prune_length_m [OF q a2] prune_length_alpha [OF q a2] by simp
  have g: "gamma (the (fitted s')) = gamma (the (fitted s3))" using e by auto
  show "gamma (the (fitted s')) \<noteq> None" unfolding g by (simp add: Q(4))
  show "length (the (gamma (the (fitted s')))) = length (alpha_a (the (fitted s')))"
    unfolding g al using prune_length_gamma [OF q a2] prune_length_alpha [OF q a2] by simp
  have sg: "sigma_a (the (fitted s')) = sigma_a (the (fitted s3))" using e by auto
  show "sigma_a (the (fitted s')) \<noteq> None" unfolding sg by (simp add: Q(7))
  show "length (the (sigma_a (the (fitted s')))) = length (alpha_a (the (fitted s')))"
    unfolding sg al using prune_length_sigma [OF q a2] prune_length_alpha [OF q a2] by simp
  show "\<forall>r \<in> set (the (sigma_a (the (fitted s')))). length r = length (alpha_a (the (fitted s')))"
    unfolding sg al using prune_rows_sigma [OF q a2] prune_length_alpha [OF q a2] by simp
  have ph: "phi (the (fitted s')) = phi (the (fitted s3))" using e by auto
  show "\<forall>r \<in> set (phi (the (fitted s'))). length r = length (alpha_a (the (fitted s')))"
    unfolding ph al using prune_rows_phi [OF q a2] prune_length_alpha [OF q a2] by simp
  show "length (phi (the (fitted s'))) = length (phi (the (fitted s)))"
    unfolding ph by (simp add: prune_length_phi [OF q a2] H P)
  show "y_a (the (fitted s')) = y_a (the (fitted s))" using e by (auto simp: Q H P)
  show "labels (the (fitted s')) = labels (the (fitted s))" using e by (auto simp: Q H P)
qed







lemma fit_loop_config:
  assumes "fit_loop n ns i s = Inr s'"
  shows "n_iter s' = n_iter s" and "tol s' = tol s" and "alpha s' = alpha s"
    and "threshold_alpha s' = threshold_alpha s" and "beta s' = beta s"
    and "beta_fixed s' = beta_fixed s" and "verbose s' = verbose s" and "verb_freq s' = verb_freq s"
proof -
  have inv: "P s'" if "P s" and "\<And>ns i s b s'. P s \<Longrightarrow> iteration ns (int i) s = Inr (b, s') \<Longrightarrow> P s'"
    for P :: "rvm \<Rightarrow> bool"
    using that(2) that(1) assms by (rule fit_loop_invariant)
  show "n_iter s' = n_iter s" by (rule inv [of "\<lambda>t. n_iter t = n_iter s"]) (simp_all add: pass_fields(3))
  show "tol s' = tol s" by (rule inv [of "\<lambda>t. tol t = tol s"]) (simp_all add: pass_fields(4))
  show "alpha s' = alpha s" by (rule inv [of "\<lambda>t. alpha t = alpha s"]) (simp_all add: pass_fields(5))
  show "threshold_alpha s' = threshold_alpha s"
    by (rule inv [of "\<lambda>t. threshold_alpha t = threshold_alpha s"]) (simp_all add: pass_fields(6))
  show "beta s' = beta s" by (rule inv [of "\<lambda>t. beta t = beta s"]) (simp_all add: pass_fields(7))
  show "beta_fixed s' = beta_fixed s"
    by (rule inv [of "\<lambda>t. beta_fixed t = beta_fixed s"]) (simp_all add: pass_fields(8))
  show "verbose s' = verbose s" by (rule inv [of "\<lambda>t. verbose t = verbose s"]) (simp_all add: pass_fields(9))
  show "verb_freq s' = verb_freq s"
    by (rule inv [of "\<lambda>t. verb_freq t = verb_freq s"]) (simp_all add: pass_fields(10))
qed














































section \<open>The posterior\<close>



section \<open>\<^verbatim>\<open>predict\<close>\<close>

text \<open>
  C9, as the code has it. \<^verbatim>\<open>predict\<close> makes no test of its own for a fitted state: on
  an object that \<^verbatim>\<open>fit\<close> has assigned no attribute to, the first read of \<^verbatim>\<open>self.m_\<close>
  raises AttributeError, for every input and for both values of the flag. No
  prediction is returned.
\<close>

theorem predict_unfitted: "fitted s = None \<Longrightarrow> predict s X e = Inl AttributeError"
  by (simp add: predict_def)

theorem predict_unfitted_witness:
  "fitted (init 3000 (Fin (1/1000)) (Fin (1/1000000)) (Fin 1000000000) (Fin (1/1000000)) False True True 10) = None
   \<and> predict (init 3000 (Fin (1/1000)) (Fin (1/1000000)) (Fin 1000000000) (Fin (1/1000000)) False True True 10)
         [[1]] True
       = Inl AttributeError"
proof -
  have h: "fitted (init 3000 (Fin (1/1000)) (Fin (1/1000000)) (Fin 1000000000) (Fin (1/1000000)) False True True 10) = None"
    by (simp add: init_def)
  show ?thesis using h predict_unfitted [OF h, of "[[1]]" True] by simp
qed

text \<open>
  C9 as stated fails: on the object built with the constructor's default arguments the
  exception is not the UnfittedModelError of the claim.
\<close>

theorem predict_unfitted_counterexample:
  "predict (init 3000 (Fin (1/1000)) (Fin (1/1000000)) (Fin 1000000000) (Fin (1/1000000)) False True True 10)
      [[1]] False
     \<noteq> Inl UnfittedModelError"
  by (simp add: predict_def init_def)

text \<open>
  C7 at a fitted object. One pass of \<^verbatim>\<open>fit\<close> on the design matrix \<open>[[1]]\<close> with target
  \<open>[2]\<close> (alpha = beta = 1, no bias) leaves \<open>m_ = [1]\<close>, \<open>sigma_ = [[1/2]]\<close> and
  \<open>beta_ = 1/2\<close>. On the two new samples \<open>[1]\<close> and \<open>[-1]\<close> the matrix
  \<open>1/beta_ + X sigma_ X\<^sup>T\<close> is \<open>[[5/2, 3/2], [3/2, 5/2]]\<close>; \<^verbatim>\<open>MSE[:, 0]\<close> is its first
  column \<open>[5/2, 3/2]\<close>, not its diagonal \<open>[5/2, 5/2]\<close>, and the second value is below
  \<open>1/beta_ = 2\<close>.
\<close>

theorem predict_variance_first_column:
  "fit (init 1 (Fin (1/1000)) (Fin 1) (Fin 1000000000) (Fin 1) False False False 10) [[1]] [2] [] =
     Inr \<lparr>n_iter = 1, tol = Fin (1/1000), alpha = Fin 1, threshold_alpha = Fin 1000000000,
          beta = Fin 1, beta_fixed = False, bias_used = False, verbose = False, verb_freq = 10,
          fitted = Some
            \<lparr>phi = [[1]], labels = [], relevance_a = [[1]], y_a = [2], alpha_a = [Fin (1/2)],
             beta_a = Fin (1/2), beta_np = True, m_a = [1], alpha_old = [Fin (1/2)],
             gamma = Some [1/2], sigma_a = Some [[1/2]], bias = None\<rparr>\<rparr>
   \<and> predict
        \<lparr>n_iter = 1, tol = Fin (1/1000), alpha = Fin 1, threshold_alpha = Fin 1000000000,
          beta = Fin 1, beta_fixed = False, bias_used = False, verbose = False, verb_freq = 10,
          fitted = Some
            \<lparr>phi = [[1]], labels = [], relevance_a = [[1]], y_a = [2], alpha_a = [Fin (1/2)],
             beta_a = Fin (1/2), beta_np = True, m_a = [1], alpha_old = [Fin (1/2)],
             gamma = Some [1/2], sigma_a = Some [[1/2]], bias = None\<rparr>\<rparr>
        [[1], [-1]] True
      = Inr ([1, -1], Some [Fin (5/2), Fin (3/2)])
   \<and> fadd (Fin (1 / (1/2))) (Fin (dotv [-1] (dot_mv [[1/2]] [-1]))) = Fin (5/2)
   \<and> fless (Fin (3/2)) (Fin (1 / (1/2)))"
  by (simp add: model_defs)

section \<open>The hyperparameter update\<close>



section \<open>The noise precision\<close>




section \<open>A weight that is exactly zero\<close>




section \<open>Pruning\<close>







section \<open>The bias flag\<close>



section \<open>The convergence test\<close>



end
